theory Spec2Isabelle
  imports Complex_Main
begin

section \<open>Python values, errors and control messages\<close>

text \<open>
  The player of \<^verbatim>\<open>wavelink/player.py\<close> handles JSON-like payloads: the data of the
  voice notifications and the filter bundles. They are modelled by the datatype
  \<open>pyval\<close>. A dictionary is an association list in insertion order, with string keys
  (the payloads are JSON objects). A Python \<^verbatim>\<open>float\<close> is modelled by a rational number:
  the claims depend on the \<^emph>\<open>type\<close> of a value (\<^verbatim>\<open>type(x) is float\<close>) and on the order
  of numbers (\<^verbatim>\<open>min\<close>, \<^verbatim>\<open>max\<close>), not on binary rounding.
\<close>

datatype pyval =
    PNone
  | PBool bool
  | PInt int
  | PFloat rat
  | PStr string
  | PList "pyval list"
  | PTuple "pyval list"
  | PDict "(string \<times> pyval) list"

type_synonym dict = "(string \<times> pyval) list"

text \<open>Every \<^verbatim>\<open>raise\<close> of the source and every exception of a built-in operation is a value.\<close>

datatype error =
    AttributeError string
  | KeyError pyval
  | TypeError
  | IndexError
  | ValueError
  | PyException string
  | HostError

text \<open>A control message is the keyword dictionary given to \<^verbatim>\<open>node._websocket.send(**payload)\<close>.\<close>

type_synonym message = dict

text \<open>\<^verbatim>\<open>d[k] = v\<close> on a dictionary: an existing key keeps its place, a new key goes last.\<close>

fun dict_set :: "dict \<Rightarrow> string \<Rightarrow> pyval \<Rightarrow> dict" where
  "dict_set [] k v = [(k, v)]"
| "dict_set ((k', v') # d) k v = (if k' = k then (k, v) # d else (k', v') # dict_set d k v)"

text \<open>\<^verbatim>\<open>d.update(other)\<close>: the items of \<open>other\<close> are stored one by one, in order.\<close>

fun dict_update :: "dict \<Rightarrow> dict \<Rightarrow> dict" where
  "dict_update d [] = d"
| "dict_update d ((k, v) # other) = dict_update (dict_set d k v) other"

definition keys :: "dict \<Rightarrow> string set" where
  "keys d = set (map fst d)"

text \<open>\<^verbatim>\<open>x[k]\<close> with a string key: only a dictionary can be subscripted so.\<close>

fun subscript :: "pyval \<Rightarrow> string \<Rightarrow> error + pyval" where
  "subscript (PDict d) k = (case map_of d k of None \<Rightarrow> Inl (KeyError (PStr k)) | Some v \<Rightarrow> Inr v)"
| "subscript _ k = Inl TypeError"

text \<open>\<^verbatim>\<open>x[n]\<close> with a literal index \<open>0\<close> or \<open>1\<close>, as the equalizer shorthand reads its pairs.\<close>

fun py_index :: "pyval \<Rightarrow> nat \<Rightarrow> error + pyval" where
  "py_index (PList xs) n = (if n < length xs then Inr (xs ! n) else Inl IndexError)"
| "py_index (PTuple xs) n = (if n < length xs then Inr (xs ! n) else Inl IndexError)"
| "py_index (PStr s) n = (if n < length s then Inr (PStr [s ! n]) else Inl IndexError)"
| "py_index (PDict d) n = Inl (KeyError (PInt (int n)))"
| "py_index _ n = Inl TypeError"

text \<open>Truth value of an object, as \<^verbatim>\<open>not channel_id\<close> tests it.\<close>

fun truthy :: "pyval \<Rightarrow> bool" where
  "truthy PNone = False"
| "truthy (PBool b) = b"
| "truthy (PInt i) = (i \<noteq> 0)"
| "truthy (PFloat x) = (x \<noteq> 0)"
| "truthy (PStr s) = (s \<noteq> [])"
| "truthy (PList xs) = (xs \<noteq> [])"
| "truthy (PTuple xs) = (xs \<noteq> [])"
| "truthy (PDict d) = (d \<noteq> [])"

text \<open>\<^verbatim>\<open>type(x) is float\<close> and \<^verbatim>\<open>type(x) is list\<close>.\<close>

fun is_float :: "pyval \<Rightarrow> bool" where
  "is_float (PFloat x) = True"
| "is_float _ = False"

fun is_list :: "pyval \<Rightarrow> bool" where
  "is_list (PList xs) = True"
| "is_list _ = False"

text \<open>\<^verbatim>\<open>str(n)\<close> of an integer: decimal digits, with a minus sign for a negative number.\<close>

fun digits :: "nat \<Rightarrow> string" where
  "digits n = (if n < 10 then [''0123456789'' ! n]
               else digits (n div 10) @ [''0123456789'' ! (n mod 10)])"

declare digits.simps [simp del]

definition str :: "int \<Rightarrow> string" where
  "str i = (if i < 0 then CHR ''-'' # digits (nat (- i)) else digits (nat i))"

section \<open>The player\<close>

text \<open>
  A resolved track carries the identifier sent to the node and its duration in seconds;
  a \<^verbatim>\<open>PartialTrack\<close> still has to be searched for.
\<close>

record track =
  track_id :: string
  duration :: rat

datatype playable = Track track | PartialTrack string

text \<open>
  The attributes of a \<^verbatim>\<open>Player\<close>, together with the part of its node that it touches
  (the list \<^verbatim>\<open>node.players\<close> and the messages given to \<^verbatim>\<open>node._websocket.send\<close>) and
  the number of runs of \<^verbatim>\<open>cleanup()\<close>.
  \<^item> \<open>ident\<close> is the identity of the object: \<^verbatim>\<open>list.remove(self)\<close> compares by identity.
  \<^item> \<open>channel\<close> and \<open>guild_id\<close> are the ids of the bound channel and of its guild
    (\<^verbatim>\<open>self.channel.id\<close>, \<^verbatim>\<open>self.guild.id\<close>): the player is bound to a channel of the
    host, as the class documentation requires.
  \<^item> \<open>last_update\<close> is a time in microseconds since the epoch; \<open>None\<close> in \<open>last_update\<close>
    and \<open>last_position\<close> is the sentinel \<^verbatim>\<open>MISSING\<close> that \<^verbatim>\<open>__init__\<close> stores.
  \<^item> \<open>connected\<close> is the attribute \<^verbatim>\<open>_connected\<close>: \<open>None\<close> while the attribute does not
    exist (\<^verbatim>\<open>__init__\<close> does not assign it).
\<close>

record player =
  ident :: nat
  channel :: int
  guild_id :: int
  voice_state :: dict
  last_update :: "int option"
  last_position :: "rat option"
  volume :: int
  paused :: bool
  source :: "track option"
  connected :: "bool option"
  node_players :: "nat list"
  node_sent :: "message list"
  cleanups :: nat

text \<open>
  \<^verbatim>\<open>Player.__init__\<close>: the new player appends itself to the players of its node
  (\<open>ps\<close>, with \<open>ms\<close> the messages the node has been sent so far).
\<close>

definition init :: "nat \<Rightarrow> int \<Rightarrow> int \<Rightarrow> nat list \<Rightarrow> message list \<Rightarrow> player" where
  "init i ch g ps ms =
     \<lparr> ident = i, channel = ch, guild_id = g, voice_state = [],
       last_update = None, last_position = None,
       volume = 100, paused = False, source = None, connected = None,
       node_players = ps @ [i], node_sent = ms, cleanups = 0 \<rparr>"

text \<open>\<^verbatim>\<open>await self.node._websocket.send(**payload)\<close>: the message is handed to the node.\<close>

definition send :: "message \<Rightarrow> player \<Rightarrow> player" where
  "send m p = p\<lparr>node_sent := node_sent p @ [m]\<rparr>"

subsection \<open>Connectivity queries\<close>

definition is_connected :: "player \<Rightarrow> error + bool" where
  "is_connected p =
     (case connected p of None \<Rightarrow> Inl (AttributeError ''_connected'') | Some b \<Rightarrow> Inr b)"

text \<open>\<^verbatim>\<open>self.is_connected() and self._source is not None\<close>: the left operand is evaluated first.\<close>

definition is_playing :: "player \<Rightarrow> error + bool" where
  "is_playing p =
     (case is_connected p of
        Inl e \<Rightarrow> Inl e
      | Inr c \<Rightarrow> Inr (c \<and> source p \<noteq> None))"

definition is_paused :: "player \<Rightarrow> bool" where
  "is_paused p = paused p"

subsection \<open>Volume\<close>

text \<open>
  \<^verbatim>\<open>set_volume\<close>: the clamped value is stored, then sent. The result is the player after
  the call (the coroutine returns nothing).
\<close>

definition set_volume :: "player \<Rightarrow> int \<Rightarrow> player" where
  "set_volume p v =
     (let p' = p\<lparr>volume := max (min v 1000) 0\<rparr>
      in send [(''op'', PStr ''volume''), (''guildId'', PStr (str (guild_id p'))),
               (''volume'', PInt (volume p'))] p')"

subsection \<open>Playback tracker\<close>

text \<open>
  Numbers read from a payload (\<^verbatim>\<open>state.get("time", 0) / 1000\<close>): an \<^verbatim>\<open>int\<close>, a \<^verbatim>\<open>bool\<close>
  or a \<^verbatim>\<open>float\<close> can be divided, anything else raises \<^verbatim>\<open>TypeError\<close>.
\<close>

fun number :: "pyval \<Rightarrow> error + rat" where
  "number (PInt i) = Inr (of_int i)"
| "number (PFloat x) = Inr x"
| "number (PBool b) = Inr (if b then 1 else 0)"
| "number _ = Inl TypeError"

text \<open>\<^verbatim>\<open>d.get(k, default)\<close>.\<close>

definition get_default :: "dict \<Rightarrow> string \<Rightarrow> pyval \<Rightarrow> pyval" where
  "get_default d k dflt = (case map_of d k of None \<Rightarrow> dflt | Some v \<Rightarrow> v)"

text \<open>
  Rounding to the nearest integer, ties to the even one, is what \<^verbatim>\<open>round\<close> and
  \<^verbatim>\<open>datetime.fromtimestamp\<close> do; \<open>py_round1 x\<close> is \<^verbatim>\<open>round(x, 1)\<close>.
\<close>

definition round_half_even :: "rat \<Rightarrow> int" where
  "round_half_even x =
     (let f = \<lfloor>x\<rfloor>; d = x - of_int f
      in if d < 1 / 2 then f else if 1 / 2 < d then f + 1 else if even f then f else f + 1)"

definition py_round1 :: "rat \<Rightarrow> rat" where
  "py_round1 x = of_int (round_half_even (x * 10)) / 10"

text \<open>
  \<^verbatim>\<open>update_state\<close>: \<open>last_update\<close> is assigned before the position is read, so a
  position that is not a number leaves the new \<open>last_update\<close> behind. The range check
  of \<^verbatim>\<open>datetime.fromtimestamp\<close> is not modelled.
\<close>

definition update_state :: "player \<Rightarrow> pyval \<Rightarrow> (error + unit) \<times> player" where
  "update_state p st =
     (case subscript st ''state'' of
        Inl e \<Rightarrow> (Inl e, p)
      | Inr s \<Rightarrow>
          (case s of
             PDict d \<Rightarrow>
               (case number (get_default d ''time'' (PInt 0)) of
                  Inl e \<Rightarrow> (Inl e, p)
                | Inr t \<Rightarrow>
                    (let p1 = p\<lparr>last_update := Some (round_half_even (t / 1000 * 1000000))\<rparr>
                     in case number (get_default d ''position'' (PInt 0)) of
                          Inl e \<Rightarrow> (Inl e, p1)
                        | Inr x \<Rightarrow> (Inr (), p1\<lparr>last_position := Some (py_round1 (x / 1000))\<rparr>)))
           | _ \<Rightarrow> (Inl (AttributeError ''get''), p)))"

text \<open>
  The property \<^verbatim>\<open>position\<close>. \<open>now\<close> is the reading of the clock
  (\<^verbatim>\<open>datetime.datetime.now(datetime.timezone.utc)\<close>) in microseconds since the epoch.
  Comparing or subtracting \<^verbatim>\<open>MISSING\<close> raises \<^verbatim>\<open>TypeError\<close>.
\<close>

definition position :: "int \<Rightarrow> player \<Rightarrow> error + rat" where
  "position now p =
     (case is_playing p of
        Inl e \<Rightarrow> Inl e
      | Inr playing \<Rightarrow>
          if \<not> playing then Inr 0
          else if is_paused p then
            (case last_position p of
               None \<Rightarrow> Inl TypeError
             | Some lp \<Rightarrow>
                 (case source p of
                    None \<Rightarrow> Inl (AttributeError ''duration'')
                  | Some s \<Rightarrow> Inr (min lp (duration s))))
          else
            (case last_update p of
               None \<Rightarrow> Inl TypeError
             | Some lu \<Rightarrow>
                 (case last_position p of
                    None \<Rightarrow> Inl TypeError
                  | Some lp \<Rightarrow>
                      (let delta = of_int (now - lu) / 1000000;
                           pos = py_round1 (lp + delta)
                       in case source p of
                            None \<Rightarrow> Inl (AttributeError ''duration'')
                          | Some s \<Rightarrow> Inr (min pos (duration s))))))"

subsection \<open>Voice handshake\<close>

text \<open>
  \<^verbatim>\<open>_dispatch_voice_update\<close>: the test reads the keys of \<^verbatim>\<open>self._voice_state\<close>, the
  message is built from the argument \<open>vs\<close>. A keyword given twice in a call is a
  \<^verbatim>\<open>TypeError\<close>.
\<close>

definition dispatch_voice_update :: "player \<Rightarrow> dict \<Rightarrow> (error + unit) \<times> player" where
  "dispatch_voice_update p vs =
     (if {''sessionId'', ''event''} = keys (voice_state p) then
        (if ''op'' \<in> keys vs \<or> ''guildId'' \<in> keys vs then (Inl TypeError, p)
         else (Inr (), send ([(''op'', PStr ''voiceUpdate''),
                              (''guildId'', PStr (str (guild_id p)))] @ vs) p))
      else (Inr (), p))"

definition on_voice_server_update :: "player \<Rightarrow> pyval \<Rightarrow> (error + unit) \<times> player" where
  "on_voice_server_update p data =
     (let p1 = p\<lparr>voice_state := dict_set (voice_state p) ''event'' data\<rparr>
      in dispatch_voice_update p1 (voice_state p1))"

text \<open>
  \<^verbatim>\<open>on_voice_state_update\<close>. The host's lookup \<^verbatim>\<open>self.guild.get_channel(int(channel_id))\<close>
  is the parameter \<open>get_channel\<close>: it gives the id of the channel found, or the error of
  the conversion or of the lookup.
\<close>

definition on_voice_state_update ::
  "(pyval \<Rightarrow> error + int) \<Rightarrow> player \<Rightarrow> pyval \<Rightarrow> (error + unit) \<times> player" where
  "on_voice_state_update get_channel p data =
     (case subscript data ''session_id'' of
        Inl e \<Rightarrow> (Inl e, p)
      | Inr sid \<Rightarrow>
          (let p1 = p\<lparr>voice_state := dict_set (voice_state p) ''sessionId'' sid\<rparr>
           in case subscript data ''channel_id'' of
                Inl e \<Rightarrow> (Inl e, p1)
              | Inr channel_id \<Rightarrow>
                  if \<not> truthy channel_id then (Inr (), p1\<lparr>voice_state := []\<rparr>)
                  else
                    (case get_channel channel_id of
                       Inl e \<Rightarrow> (Inl e, p1)
                     | Inr ch \<Rightarrow>
                         (let p2 = p1\<lparr>channel := ch\<rparr>
                          in dispatch_voice_update p2
                               (dict_set (voice_state p2) ''event'' data)))))"




subsection \<open>Connecting and disconnecting\<close>

text \<open>
  The request to the host, \<^verbatim>\<open>self.guild.change_voice_state(...)\<close>, is outside the
  repository: its outcome is the parameter \<open>request\<close>, \<open>None\<close> when it returns and
  \<open>Some e\<close> when it raises \<open>e\<close>.
\<close>

definition connect :: "player \<Rightarrow> error option \<Rightarrow> (error + unit) \<times> player" where
  "connect p request =
     (case request of
        Some e \<Rightarrow> (Inl e, p)
      | None \<Rightarrow> (Inr (), p\<lparr>connected := Some True\<rparr>))"

text \<open>
  \<^verbatim>\<open>cleanup()\<close> is inherited from the host's voice protocol; the model counts how often
  it ran.
\<close>

definition cleanup :: "player \<Rightarrow> player" where
  "cleanup p = p\<lparr>cleanups := cleanups p + 1\<rparr>"

text \<open>
  \<^verbatim>\<open>disconnect\<close>: the \<^verbatim>\<open>finally\<close> block runs whether the \<^verbatim>\<open>try\<close> block raised or not.
  \<^verbatim>\<open>list.remove\<close> takes out the first occurrence and raises \<^verbatim>\<open>ValueError\<close> when there
  is none; an exception of the \<^verbatim>\<open>finally\<close> block replaces the one of the \<^verbatim>\<open>try\<close> block
  and skips the rest of the block.
\<close>

definition disconnect :: "player \<Rightarrow> error option \<Rightarrow> (error + unit) \<times> player" where
  "disconnect p request =
     (let p1 = (case request of None \<Rightarrow> p\<lparr>connected := Some False\<rparr> | Some e \<Rightarrow> p)
      in if ident p1 \<in> set (node_players p1) then
           (case request of None \<Rightarrow> Inr () | Some e \<Rightarrow> Inl e,
            cleanup (p1\<lparr>node_players := remove1 (ident p1) (node_players p1)\<rparr>))
         else (Inl ValueError, p1))"

subsection \<open>Playback\<close>

text \<open>
  \<^verbatim>\<open>play\<close>. \<open>search\<close> is \<^verbatim>\<open>PartialTrack._search\<close>, which is outside the repository.
  \<^verbatim>\<open>replace or not self.is_playing()\<close> does not call \<^verbatim>\<open>is_playing\<close> when \<open>replace\<close>
  holds. The result is the track now playing, or \<open>None\<close> when the call returns early.
\<close>

definition play ::
  "(string \<Rightarrow> error + track) \<Rightarrow> player \<Rightarrow> playable \<Rightarrow> bool \<Rightarrow> int \<Rightarrow> int
     \<Rightarrow> (error + track option) \<times> player" where
  "play search p src replace start end =
     (case (if replace then Inr True
            else (case is_playing p of Inl e \<Rightarrow> Inl e | Inr b \<Rightarrow> Inr (\<not> b))) of
        Inl e \<Rightarrow> (Inl e, p)
      | Inr False \<Rightarrow> (Inr None, p)
      | Inr True \<Rightarrow>
          (case update_state p (PDict [(''state'', PDict [])]) of
             (Inl e, p1) \<Rightarrow> (Inl e, p1)
           | (Inr u, p1) \<Rightarrow>
               (let p2 = p1\<lparr>paused := False\<rparr>
                in case (case src of PartialTrack q \<Rightarrow> search q | Track t \<Rightarrow> Inr t) of
                     Inl e \<Rightarrow> (Inl e, p2)
                   | Inr t \<Rightarrow>
                       (let p3 = p2\<lparr>source := Some t\<rparr>;
                            payload = [(''op'', PStr ''play''),
                                       (''guildId'', PStr (str (guild_id p3))),
                                       (''track'', PStr (track_id t)),
                                       (''noReplace'', PBool (\<not> replace)),
                                       (''startTime'', PStr (str start))];
                            payload' = (if end > 0
                                        then dict_set payload ''endTime'' (PStr (str end))
                                        else payload)
                        in (Inr (Some t), send payload' p3)))))"

definition stop :: "player \<Rightarrow> player" where
  "stop p =
     (send [(''op'', PStr ''stop''), (''guildId'', PStr (str (guild_id p)))] p)\<lparr>source := None\<rparr>"

definition set_pause :: "player \<Rightarrow> bool \<Rightarrow> player" where
  "set_pause p pause =
     (send [(''op'', PStr ''pause''), (''guildId'', PStr (str (guild_id p))),
            (''pause'', PBool pause)] p)\<lparr>paused := pause\<rparr>"

definition seek :: "player \<Rightarrow> int \<Rightarrow> player" where
  "seek p pos =
     send [(''op'', PStr ''seek''), (''guildId'', PStr (str (guild_id p))),
           (''position'', PInt pos)] p"

subsection \<open>Filters\<close>

text \<open>
  The nine keyword arguments of \<^verbatim>\<open>set_filters\<close>; \<open>PNone\<close> is the default \<^verbatim>\<open>None\<close> of an
  argument that is not supplied.
\<close>

record filters =
  equalizerjson :: pyval
  karaokejson :: pyval
  timescalejson :: pyval
  tremolojson :: pyval
  vibratojson :: pyval
  rotationjson :: pyval
  distortionjson :: pyval
  channelMixjson :: pyval
  lowPassjson :: pyval

definition no_filters :: filters where
  "no_filters =
     \<lparr> equalizerjson = PNone, karaokejson = PNone, timescalejson = PNone,
       tremolojson = PNone, vibratojson = PNone, rotationjson = PNone,
       distortionjson = PNone, channelMixjson = PNone, lowPassjson = PNone \<rparr>"

text \<open>
  The shorthand forms. \<^verbatim>\<open>[{"band": i[0], "gain": i[1]} for i in levels]\<close> reads the two
  components of every element in order and stops at the first that cannot be read.
\<close>

definition band_gain :: "pyval \<Rightarrow> error + pyval" where
  "band_gain i =
     (case py_index i 0 of
        Inl e \<Rightarrow> Inl e
      | Inr b \<Rightarrow>
          (case py_index i 1 of
             Inl e \<Rightarrow> Inl e
           | Inr g \<Rightarrow> Inr (PDict [(''band'', b), (''gain'', g)])))"

fun bands :: "pyval list \<Rightarrow> error + pyval list" where
  "bands [] = Inr []"
| "bands (i # levels) =
     (case band_gain i of
        Inl e \<Rightarrow> Inl e
      | Inr x \<Rightarrow> (case bands levels of Inl e \<Rightarrow> Inl e | Inr xs \<Rightarrow> Inr (x # xs)))"

definition normalize_equalizer :: "pyval \<Rightarrow> error + pyval" where
  "normalize_equalizer j =
     (case j of
        PList levels \<Rightarrow>
          (case bands levels of
             Inl e \<Rightarrow> Inl e
           | Inr bs \<Rightarrow> Inr (PDict [(''equalizer'', PList bs)]))
      | _ \<Rightarrow> Inr j)"

text \<open>\<^verbatim>\<open>if type(j) is float: j = {outer: {inner: j}}\<close>, for rotation and lowPass.\<close>

definition normalize_float :: "string \<Rightarrow> string \<Rightarrow> pyval \<Rightarrow> pyval" where
  "normalize_float outer inner j =
     (case j of PFloat x \<Rightarrow> PDict [(outer, PDict [(inner, PFloat x)])] | _ \<Rightarrow> j)"

text \<open>\<^verbatim>\<open>payload.update(j)\<close>: \<open>j\<close> has been subscripted before, so it is a dictionary.\<close>

definition update_with :: "dict \<Rightarrow> pyval \<Rightarrow> error + dict" where
  "update_with payload j =
     (case j of PDict d \<Rightarrow> Inr (dict_update payload d) | _ \<Rightarrow> Inl TypeError)"

text \<open>
  The test of the equalizer bundle:
  \<^verbatim>\<open>if type(equalizerjson["equalizer"]) is not list: raise Exception("Deformed equalizerjson")\<close>.
\<close>

definition check_equalizer :: "pyval \<Rightarrow> dict \<Rightarrow> error + dict" where
  "check_equalizer j payload =
     (if j = PNone then Inr payload
      else
        (case subscript j ''equalizer'' of
           Inl e \<Rightarrow> Inl e
         | Inr v \<Rightarrow>
             if \<not> is_list v then Inl (PyException ''Deformed equalizerjson'')
             else update_with payload j))"

text \<open>One operand \<^verbatim>\<open>type(j[outer][field]) is not float\<close> of a test.\<close>

definition not_float :: "pyval \<Rightarrow> string \<Rightarrow> string \<Rightarrow> error + bool" where
  "not_float j outer field =
     (case subscript j outer of
        Inl e \<Rightarrow> Inl e
      | Inr b \<Rightarrow> (case subscript b field of Inl e \<Rightarrow> Inl e | Inr v \<Rightarrow> Inr (\<not> is_float v)))"

text \<open>The operands joined by \<^verbatim>\<open>or\<close>: evaluation stops at the first that holds or raises.\<close>

fun any_not_float :: "pyval \<Rightarrow> string \<Rightarrow> string list \<Rightarrow> error + bool" where
  "any_not_float j outer [] = Inr False"
| "any_not_float j outer (f # fs) =
     (case not_float j outer f of
        Inl e \<Rightarrow> Inl e
      | Inr True \<Rightarrow> Inr True
      | Inr False \<Rightarrow> any_not_float j outer fs)"

text \<open>
  The test of one of the other eight bundles:
  \<^verbatim>\<open>if j is not None: if <some field is not a float>: raise Exception(msg); payload.update(j)\<close>.
\<close>

definition check_floats ::
  "pyval \<Rightarrow> string \<Rightarrow> string list \<Rightarrow> string \<Rightarrow> dict \<Rightarrow> error + dict" where
  "check_floats j outer names msg payload =
     (if j = PNone then Inr payload
      else
        (case any_not_float j outer names of
           Inl e \<Rightarrow> Inl e
         | Inr True \<Rightarrow> Inl (PyException msg)
         | Inr False \<Rightarrow> update_with payload j))"

text \<open>Sequencing of steps that may raise.\<close>

definition bind_err :: "error + 'a \<Rightarrow> ('a \<Rightarrow> error + 'b) \<Rightarrow> error + 'b" where
  "bind_err m f = (case m of Inl e \<Rightarrow> Inl e | Inr x \<Rightarrow> f x)"

text \<open>
  The payload of \<^verbatim>\<open>set_filters\<close>: the shorthand forms are replaced first, then the bundles
  are tested and merged in the order of the source.
\<close>

definition filters_payload :: "player \<Rightarrow> filters \<Rightarrow> error + dict" where
  "filters_payload p a =
     bind_err (normalize_equalizer (equalizerjson a)) (\<lambda>equalizer.
       (let rotation = normalize_float ''rotation'' ''rotationHz'' (rotationjson a);
            lowPass = normalize_float ''lowPass'' ''smoothing'' (lowPassjson a)
        in
     bind_err (check_equalizer equalizer
             [(''op'', PStr ''filters''), (''guildId'', PStr (str (guild_id p)))]) (\<lambda>payload.
     bind_err (check_floats (karaokejson a) ''karaoke''
             [''level'', ''monoLevel'', ''filterBand'', ''filterWidth'']
             ''Deformed karaokejson'' payload) (\<lambda>payload.
     bind_err (check_floats (timescalejson a) ''timescale''
             [''speed'', ''pitch'', ''rate'']
             ''Deformed timescalejson'' payload) (\<lambda>payload.
     bind_err (check_floats (tremolojson a) ''tremolo''
             [''frequency'', ''depth'']
             ''Deformed tremolojson'' payload) (\<lambda>payload.
     bind_err (check_floats (vibratojson a) ''vibrato''
             [''frequency'', ''depth'']
             ''Deformed vibratojson'' payload) (\<lambda>payload.
     bind_err (check_floats rotation ''rotation''
             [''rotationHz'']
             ''Deformed rotationjson'' payload) (\<lambda>payload.
     bind_err (check_floats (distortionjson a) ''distortion''
             [''sinOffset'', ''sinScale'', ''cosOffset'', ''cosScale'',
              ''tanOffset'', ''tanScale'', ''offset'', ''scale'']
             ''Deformed distortionjson'' payload) (\<lambda>payload.
     bind_err (check_floats (channelMixjson a) ''channelMix''
             [''leftToLeft'', ''leftToRight'', ''rightToLeft'', ''rightToRight'']
             ''Deformed channelMix'' payload) (\<lambda>payload.
     check_floats lowPass ''lowPass''
             [''smoothing'']
             ''Deformed lowPassjson'' payload))))))))))"

text \<open>\<^verbatim>\<open>set_filters\<close>: the only effect is the one \<^verbatim>\<open>send\<close> at the end.\<close>

definition set_filters :: "player \<Rightarrow> filters \<Rightarrow> (error + unit) \<times> player" where
  "set_filters p a =
     (case filters_payload p a of
        Inl e \<Rightarrow> (Inl e, p)
      | Inr payload \<Rightarrow> (Inr (), send payload p))"

text \<open>The convenience operations pass one bundle to \<^verbatim>\<open>set_filters\<close>.\<close>

definition set_equalizer :: "player \<Rightarrow> pyval \<Rightarrow> (error + unit) \<times> player" where
  "set_equalizer p j = set_filters p (no_filters\<lparr>equalizerjson := j\<rparr>)"


definition set_rotation :: "player \<Rightarrow> pyval \<Rightarrow> (error + unit) \<times> player" where
  "set_rotation p j = set_filters p (no_filters\<lparr>rotationjson := j\<rparr>)"

definition set_lowPass :: "player \<Rightarrow> pyval \<Rightarrow> (error + unit) \<times> player" where
  "set_lowPass p j = set_filters p (no_filters\<lparr>lowPassjson := j\<rparr>)"

subsection \<open>Collaborators and data of the examples\<close>

text \<open>
  A host that finds the channel \<open>ch\<close> whatever id it is asked for, a search that finds
  nothing, two tracks, and the payloads of two voice notifications.
\<close>

definition found_channel :: "int \<Rightarrow> pyval \<Rightarrow> error + int" where
  "found_channel ch channel_id = Inr ch"

definition no_search :: "string \<Rightarrow> error + track" where
  "no_search q = Inl HostError"

definition track_a :: track where
  "track_a = \<lparr> track_id = ''QAAAjQIAJ'', duration = 180 \<rparr>"

definition track_b :: track where
  "track_b = \<lparr> track_id = ''QAAAkwIAK'', duration = 240 \<rparr>"

definition server_event :: pyval where
  "server_event =
     PDict [(''token'', PStr ''tok''), (''guild_id'', PStr ''1''),
            (''endpoint'', PStr ''eu.example:443'')]"

definition state_event :: "pyval \<Rightarrow> pyval" where
  "state_event channel_id =
     PDict [(''guild_id'', PStr ''1''), (''channel_id'', channel_id),
            (''user_id'', PStr ''9''), (''session_id'', PStr ''s1'')]"

text \<open>
  Three players of the examples: one that plays \<open>track_a\<close>; the same after the node
  reported a time one second ahead of the reader's clock; and one paused at a reported
  position beyond the end of the track.
\<close>

definition playing_a :: player where
  "playing_a =
     snd (play no_search (snd (connect (init 7 42 1 [] []) None)) (Track track_a) True 0 0)"



subsection \<open>The filter tests as a table, and what the specification requires\<close>

text \<open>
  The eight tests after the equalizer have one shape: the argument, the key of the
  bundle, the fields read, and the message of the exception. \<open>float_bundles\<close> lists them
  in the order of the source, with the shorthand forms of rotation and lowPass already
  replaced, and \<open>check_all\<close> runs a list of such tests one after the other.
\<close>

type_synonym float_test = "pyval \<times> string \<times> string list \<times> string"

definition float_bundles :: "filters \<Rightarrow> float_test list" where
  "float_bundles a =
     [(karaokejson a, ''karaoke'',
         [''level'', ''monoLevel'', ''filterBand'', ''filterWidth''], ''Deformed karaokejson''),
      (timescalejson a, ''timescale'',
         [''speed'', ''pitch'', ''rate''], ''Deformed timescalejson''),
      (tremolojson a, ''tremolo'',
         [''frequency'', ''depth''], ''Deformed tremolojson''),
      (vibratojson a, ''vibrato'',
         [''frequency'', ''depth''], ''Deformed vibratojson''),
      (normalize_float ''rotation'' ''rotationHz'' (rotationjson a), ''rotation'',
         [''rotationHz''], ''Deformed rotationjson''),
      (distortionjson a, ''distortion'',
         [''sinOffset'', ''sinScale'', ''cosOffset'', ''cosScale'',
          ''tanOffset'', ''tanScale'', ''offset'', ''scale''], ''Deformed distortionjson''),
      (channelMixjson a, ''channelMix'',
         [''leftToLeft'', ''leftToRight'', ''rightToLeft'', ''rightToRight''],
         ''Deformed channelMix''),
      (normalize_float ''lowPass'' ''smoothing'' (lowPassjson a), ''lowPass'',
         [''smoothing''], ''Deformed lowPassjson'')]"

fun check_all :: "float_test list \<Rightarrow> dict \<Rightarrow> error + dict" where
  "check_all [] payload = Inr payload"
| "check_all ((j, outer, names, msg) # bs) payload =
     bind_err (check_floats j outer names msg payload) (check_all bs)"


definition well_formed :: "pyval \<Rightarrow> string \<Rightarrow> string list \<Rightarrow> bool" where
  "well_formed j outer names =
     (case subscript j outer of
        Inr (PDict b) \<Rightarrow>
          list_all (\<lambda>f. case map_of b f of None \<Rightarrow> False | Some v \<Rightarrow> is_float v) names
      | _ \<Rightarrow> False)"

fun accepted :: "float_test \<Rightarrow> bool" where
  "accepted (j, outer, names, msg) = (j = PNone \<or> well_formed j outer names)"



subsection \<open>Filter bundles of the examples\<close>







section \<open>Properties\<close>

subsection \<open>Auxiliary facts\<close>



lemma update_state_empty:
  "update_state p (PDict [(''state'', PDict [])]) =
     (Inr (), p\<lparr>last_update := Some 0, last_position := Some 0\<rparr>)"
  by (simp add: update_state_def get_default_def round_half_even_def py_round1_def)

lemma update_state_connected:
  "connected (snd (update_state p st)) = connected p"
  by (simp add: update_state_def Let_def split: sum.splits pyval.splits)

lemma dispatch_connected:
  "connected (snd (dispatch_voice_update p vs)) = connected p"
  by (simp add: dispatch_voice_update_def send_def)

lemma play_connected:
  "connected (snd (play search p src replace start end)) = connected p"
  using update_state_connected [of p "PDict [(''state'', PDict [])]"]
  by (auto simp add: play_def Let_def send_def split: sum.splits bool.splits prod.splits)



lemma playing_a_eq:
  "playing_a =
     \<lparr> ident = 7, channel = 42, guild_id = 1, voice_state = [],
       last_update = Some 0, last_position = Some 0,
       volume = 100, paused = False, source = Some track_a, connected = Some True,
       node_players = [7],
       node_sent = [[(''op'', PStr ''play''), (''guildId'', PStr ''1''),
                     (''track'', PStr ''QAAAjQIAJ''), (''noReplace'', PBool False),
                     (''startTime'', PStr ''0'')]],
       cleanups = 0 \<rparr>"
  by (simp add: playing_a_def play_def update_state_empty connect_def init_def send_def
      str_def digits.simps track_a_def)



subsection \<open>Volume\<close>

text \<open>
  C4. For every integer \<open>v\<close>, below 0 and above 1000 included, after \<open>set_volume\<close> the
  stored volume is \<open>v\<close> clamped to the interval from 0 to 1000, so it lies in that
  interval, and exactly one message is handed to the node: the \<open>volume\<close> message of the
  player's guild, carrying the clamped value. Nothing else of the player changes.
\<close>

theorem set_volume_clamps:
  "volume (set_volume p v) = (if v < 0 then 0 else if v > 1000 then 1000 else v)
   \<and> 0 \<le> volume (set_volume p v) \<and> volume (set_volume p v) \<le> 1000
   \<and> node_sent (set_volume p v) =
       node_sent p @ [[(''op'', PStr ''volume''), (''guildId'', PStr (str (guild_id p))),
                       (''volume'', PInt (volume (set_volume p v)))]]
   \<and> set_volume p v = p\<lparr>volume := volume (set_volume p v),
                          node_sent := node_sent (set_volume p v)\<rparr>"
  by (simp add: set_volume_def send_def Let_def)

subsection \<open>Connectivity of a fresh player\<close>

text \<open>
  C10. A player that \<open>init\<close> has just built has no \<open>_connected\<close> attribute, so
  \<open>is_connected\<close>, \<open>is_playing\<close> and \<open>position\<close> raise \<open>AttributeError\<close> instead of
  answering false or 0. After a \<open>connect\<close> or a \<open>disconnect\<close> whose request to the host
  returned, the three queries answer. No other operation assigns the attribute, and
  neither does a \<open>connect\<close> or \<open>disconnect\<close> whose request to the host raised: each of them
  leaves \<open>connected\<close> as it found it.
\<close>

theorem fresh_player_queries_raise:
  "is_connected (init i ch g ps ms) = Inl (AttributeError ''_connected'')
   \<and> is_playing (init i ch g ps ms) = Inl (AttributeError ''_connected'')
   \<and> position now (init i ch g ps ms) = Inl (AttributeError ''_connected'')
   \<and> is_connected (snd (connect (init i ch g ps ms) None)) = Inr True
   \<and> is_playing (snd (connect (init i ch g ps ms) None)) = Inr False
   \<and> position now (snd (connect (init i ch g ps ms) None)) = Inr 0
   \<and> is_connected (snd (disconnect (init i ch g ps ms) None)) = Inr False
   \<and> is_playing (snd (disconnect (init i ch g ps ms) None)) = Inr False
   \<and> position now (snd (disconnect (init i ch g ps ms) None)) = Inr 0
   \<and> connected (snd (connect p (Some e))) = connected p
   \<and> connected (snd (disconnect p (Some e))) = connected p
   \<and> connected (snd (play search p src replace start end)) = connected p
   \<and> connected (stop p) = connected p
   \<and> connected (set_pause p pause) = connected p
   \<and> connected (seek p pos) = connected p
   \<and> connected (set_volume p v) = connected p
   \<and> connected (snd (update_state p st)) = connected p
   \<and> connected (snd (on_voice_server_update p data)) = connected p
   \<and> connected (snd (on_voice_state_update get_channel p data)) = connected p
   \<and> connected (snd (set_filters p a)) = connected p"
proof -
  have fresh: "connected (init i ch g ps ms) = None"
    by (simp add: init_def)
  have queries: "is_connected (init i ch g ps ms) = Inl (AttributeError ''_connected'')"
    "is_playing (init i ch g ps ms) = Inl (AttributeError ''_connected'')"
    "position now (init i ch g ps ms) = Inl (AttributeError ''_connected'')"
    by (simp_all add: is_connected_def is_playing_def position_def fresh)
  have after: "is_connected (snd (connect (init i ch g ps ms) None)) = Inr True"
    "is_playing (snd (connect (init i ch g ps ms) None)) = Inr False"
    "position now (snd (connect (init i ch g ps ms) None)) = Inr 0"
    "is_connected (snd (disconnect (init i ch g ps ms) None)) = Inr False"
    "is_playing (snd (disconnect (init i ch g ps ms) None)) = Inr False"
    "position now (snd (disconnect (init i ch g ps ms) None)) = Inr 0"
    by (simp_all add: is_connected_def is_playing_def position_def init_def connect_def
        disconnect_def cleanup_def)
  have failed: "connected (snd (connect p (Some e))) = connected p"
    "connected (snd (disconnect p (Some e))) = connected p"
    by (simp_all add: connect_def disconnect_def cleanup_def)
  have plain: "connected (stop p) = connected p"
    "connected (set_pause p pause) = connected p"
    "connected (seek p pos) = connected p"
    "connected (set_volume p v) = connected p"
    by (simp_all add: stop_def set_pause_def seek_def set_volume_def send_def Let_def)
  have voice: "connected (snd (on_voice_server_update p data)) = connected p"
    "connected (snd (on_voice_state_update get_channel p data)) = connected p"
    by (simp_all add: on_voice_server_update_def on_voice_state_update_def Let_def
        dispatch_connected split: sum.splits)
  have filt: "connected (snd (set_filters p a)) = connected p"
    by (simp add: set_filters_def send_def split: sum.splits)
  show ?thesis
    using queries after failed plain voice filt play_connected update_state_connected
    by simp
qed

subsection \<open>Playing without replacing\<close>

text \<open>
  C8. On a player that is playing (connected, with a current source),
  \<open>play\<close> with \<open>replace = False\<close> returns nothing and leaves the player as it was: no
  message is sent, the current source stays, the pause flag and the baseline of the
  tracker are not reset.
\<close>

theorem play_without_replace_is_noop:
  assumes "connected p = Some True" and "source p = Some a"
  shows "play search p b False start end = (Inr None, p)"
  using assms by (simp add: play_def is_playing_def is_connected_def)

text \<open>The player that plays \<open>track_a\<close> is asked to play \<open>track_b\<close> without replacing.\<close>

theorem play_without_replace_is_noop_witness:
  "connected playing_a = Some True \<and> source playing_a = Some track_a
   \<and> play no_search playing_a (Track track_b) False 0 0 = (Inr None, playing_a)
   \<and> source (snd (play no_search playing_a (Track track_b) False 0 0)) = Some track_a"
proof -
  have c: "connected playing_a = Some True" and s: "source playing_a = Some track_a"
    by (simp_all add: playing_a_eq)
  show ?thesis
    using c s play_without_replace_is_noop [OF c s, of no_search "Track track_b" 0 0]
    by simp
qed

subsection \<open>Voice handshake\<close>




















lemma keys_append: "keys (a @ b) = keys a \<union> keys b"
  by (simp add: keys_def)














subsection \<open>A state update without a channel\<close>

text \<open>
  C7. A state update that carries a session id and an empty channel id (any value that
  Python takes for false: \<open>None\<close>, the empty string, 0) clears the whole voice state, the
  stored event and the session id just merged included, and returns without sending
  anything. A server update that follows stores its event alone and sends nothing
  either.
\<close>

theorem state_update_empty_channel_clears:
  assumes "subscript data ''session_id'' = Inr sid"
    and "subscript data ''channel_id'' = Inr channel_id"
    and "\<not> truthy channel_id"
  shows "on_voice_state_update get_channel p data = (Inr (), p\<lparr>voice_state := []\<rparr>)
         \<and> node_sent (snd (on_voice_state_update get_channel p data)) = node_sent p
         \<and> on_voice_server_update (snd (on_voice_state_update get_channel p data)) e =
             (Inr (), p\<lparr>voice_state := [(''event'', e)]\<rparr>)
         \<and> node_sent (snd (on_voice_server_update
               (snd (on_voice_state_update get_channel p data)) e)) = node_sent p"
proof -
  have clear: "on_voice_state_update get_channel p data = (Inr (), p\<lparr>voice_state := []\<rparr>)"
    using assms by (simp add: on_voice_state_update_def)
  have "{''sessionId'', ''event''} \<noteq> keys [(''event'', e)]"
    by (auto simp add: keys_def)
  then have next_one: "on_voice_server_update (p\<lparr>voice_state := []\<rparr>) e =
      (Inr (), p\<lparr>voice_state := [(''event'', e)]\<rparr>)"
    by (simp add: on_voice_server_update_def dispatch_voice_update_def)
  show ?thesis
    by (simp add: clear next_one)
qed

text \<open>
  A fresh player has stored the event of a server update; a state update with the
  channel id \<open>None\<close> brings it back to the fresh state, and the next server update sends
  nothing.
\<close>

theorem state_update_empty_channel_clears_witness:
  "subscript (state_event PNone) ''session_id'' = Inr (PStr ''s1'')
   \<and> subscript (state_event PNone) ''channel_id'' = Inr PNone
   \<and> \<not> truthy PNone
   \<and> voice_state (snd (on_voice_server_update (init 7 42 1 [] []) server_event)) =
       [(''event'', server_event)]
   \<and> on_voice_state_update (found_channel 42)
         (snd (on_voice_server_update (init 7 42 1 [] []) server_event)) (state_event PNone) =
       (Inr (), init 7 42 1 [] [])
   \<and> node_sent (snd (on_voice_server_update
         (snd (on_voice_state_update (found_channel 42)
            (snd (on_voice_server_update (init 7 42 1 [] []) server_event))
            (state_event PNone))) server_event)) = []"
proof -
  have s: "subscript (state_event PNone) ''session_id'' = Inr (PStr ''s1'')"
    and c: "subscript (state_event PNone) ''channel_id'' = Inr PNone"
    by (simp_all add: state_event_def)
  have t: "\<not> truthy PNone" by simp
  have "{''sessionId'', ''event''} \<noteq> keys [(''event'', server_event)]"
    by (auto simp add: keys_def)
  then have first: "snd (on_voice_server_update (init 7 42 1 [] []) server_event) =
      (init 7 42 1 [] [])\<lparr>voice_state := [(''event'', server_event)]\<rparr>"
    by (simp add: on_voice_server_update_def dispatch_voice_update_def init_def)
  show ?thesis
    using s c t first
      state_update_empty_channel_clears [OF s c t, of "found_channel 42"
        "snd (on_voice_server_update (init 7 42 1 [] []) server_event)" server_event]
    by (simp add: init_def)
qed

subsection \<open>Disconnecting\<close>

text \<open>
  C9 (as amended). On a player that is in the list of players of its node, \<open>disconnect\<close>
  takes the player's first entry out of the list and runs \<open>cleanup\<close>, whether the request
  to the host returned or raised; an exception of the request is raised again after the
  cleanup, and then the connected flag is left as it was. When the list holds the player
  once, the player is no longer in it afterwards. On a player that is not in the list,
  as after an earlier \<open>disconnect\<close>, \<open>list.remove\<close> raises \<open>ValueError\<close>, the list stays
  as it was and \<open>cleanup\<close> does not run.
\<close>

theorem disconnect_cleanup:
  "(ident p \<in> set (node_players p) \<longrightarrow>
      node_players (snd (disconnect p request)) = remove1 (ident p) (node_players p)
      \<and> cleanups (snd (disconnect p request)) = cleanups p + 1
      \<and> fst (disconnect p request) = (case request of None \<Rightarrow> Inr () | Some e \<Rightarrow> Inl e)
      \<and> connected (snd (disconnect p request)) =
          (case request of None \<Rightarrow> Some False | Some e \<Rightarrow> connected p)
      \<and> (distinct (node_players p) \<longrightarrow>
            ident p \<notin> set (node_players (snd (disconnect p request)))))
   \<and> (ident p \<notin> set (node_players p) \<longrightarrow>
      fst (disconnect p request) = Inl ValueError
      \<and> node_players (snd (disconnect p request)) = node_players p
      \<and> cleanups (snd (disconnect p request)) = cleanups p)"
  by (cases request) (simp_all add: disconnect_def cleanup_def)

text \<open>
  Player 7 joins a node that has player 3. A disconnect whose request to the host raises
  still removes it and cleans up; a second disconnect after a first one raises
  \<open>ValueError\<close>.
\<close>

theorem disconnect_cleanup_witness:
  "ident (init 7 42 1 [3] []) \<in> set (node_players (init 7 42 1 [3] []))
   \<and> distinct (node_players (init 7 42 1 [3] []))
   \<and> node_players (snd (disconnect (init 7 42 1 [3] []) (Some HostError))) = [3]
   \<and> cleanups (snd (disconnect (init 7 42 1 [3] []) (Some HostError))) = 1
   \<and> fst (disconnect (init 7 42 1 [3] []) (Some HostError)) = Inl HostError
   \<and> ident (snd (disconnect (init 7 42 1 [3] []) None))
        \<notin> set (node_players (snd (disconnect (init 7 42 1 [3] []) None)))
   \<and> fst (disconnect (snd (disconnect (init 7 42 1 [3] []) None)) None) = Inl ValueError"
proof -
  have a: "ident (init 7 42 1 [3] []) \<in> set (node_players (init 7 42 1 [3] []))"
    and d: "distinct (node_players (init 7 42 1 [3] []))"
    by (simp_all add: init_def)
  have once: "snd (disconnect (init 7 42 1 [3] []) None) =
      (init 7 42 1 [3] [])\<lparr>connected := Some False, node_players := [3], cleanups := 1\<rparr>"
    by (simp add: disconnect_def cleanup_def init_def)
  have b: "ident (snd (disconnect (init 7 42 1 [3] []) None))
        \<notin> set (node_players (snd (disconnect (init 7 42 1 [3] []) None)))"
    by (simp add: once) (simp add: init_def)
  show ?thesis
    using a d b
      disconnect_cleanup [of "init 7 42 1 [3] []" "Some HostError"]
      disconnect_cleanup [of "snd (disconnect (init 7 42 1 [3] []) None)" None]
    by (simp add: init_def)
qed

text \<open>
  The claim as stated, cleanup on every call, fails on the second of two calls: the first
  call cleans up once, the second raises \<open>ValueError\<close> and the count of cleanups stays 1.
\<close>

theorem disconnect_twice_counterexample:
  "fst (disconnect (snd (disconnect (init 7 42 1 [3] []) None)) None) = Inl ValueError
   \<and> cleanups (snd (disconnect (init 7 42 1 [3] []) None)) = 1
   \<and> cleanups (snd (disconnect (snd (disconnect (init 7 42 1 [3] []) None)) None)) = 1"
  by (simp add: disconnect_def cleanup_def init_def)

subsection \<open>Position\<close>




subsection \<open>Filters\<close>

text \<open>Facts about the tests of \<open>set_filters\<close>, one bundle at a time and in sequence.\<close>

lemma bind_err_simps:
  "bind_err (Inl e) f = Inl e"
  "bind_err (Inr x) f = f x"
  by (simp_all add: bind_err_def)

lemma bind_err_Inr: "bind_err m Inr = m"
  by (cases m) (simp_all add: bind_err_def)

lemma check_all_Nil: "check_all [] = Inr"
  by (rule ext) simp

lemma filters_payload_table:
  "filters_payload p a =
     bind_err (normalize_equalizer (equalizerjson a)) (\<lambda>equalizer.
       bind_err (check_equalizer equalizer
                   [(''op'', PStr ''filters''), (''guildId'', PStr (str (guild_id p)))])
                (check_all (float_bundles a)))"
proof -
  have unfold: "check_all ((j, outer, names, msg) # bs) =
      (\<lambda>payload. bind_err (check_floats j outer names msg payload) (check_all bs))"
    for j outer names msg bs
    by (rule ext) simp
  show ?thesis
    by (simp only: filters_payload_def float_bundles_def Let_def unfold check_all_Nil
        bind_err_Inr)
qed

lemma any_not_float_well_formed:
  assumes "subscript j outer = Inr (PDict b)"
    and "list_all (\<lambda>f. case map_of b f of None \<Rightarrow> False | Some v \<Rightarrow> is_float v) names"
  shows "any_not_float j outer names = Inr False"
  using assms(2)
proof (induction names)
  case Nil
  then show ?case by simp
next
  case (Cons f fs)
  then obtain v where "map_of b f = Some v" "is_float v"
    by (auto split: option.splits)
  with Cons assms(1) show ?case
    by (simp add: not_float_def)
qed



lemma well_formed_dict:
  assumes "well_formed j outer names"
  obtains d where "j = PDict d"
  using assms by (cases j) (simp_all add: well_formed_def)

lemma check_floats_absent: "check_floats PNone outer names msg payload = Inr payload"
  by (simp add: check_floats_def)

lemma check_floats_well_formed:
  assumes "well_formed (PDict d) outer names"
  shows "check_floats (PDict d) outer names msg payload = Inr (dict_update payload d)"
proof -
  from assms obtain b where b: "subscript (PDict d) outer = Inr (PDict b)"
    and all: "list_all (\<lambda>f. case map_of b f of None \<Rightarrow> False | Some v \<Rightarrow> is_float v) names"
    by (auto simp add: well_formed_def split: sum.splits pyval.splits)
  have "any_not_float (PDict d) outer names = Inr False"
    using b all by (rule any_not_float_well_formed)
  then show ?thesis
    by (simp add: check_floats_def update_with_def)
qed



lemma check_floats_accepted:
  assumes "accepted (j, outer, names, msg)"
  shows "\<exists>payload'. check_floats j outer names msg payload = Inr payload'"
proof (cases "j = PNone")
  case True
  then show ?thesis by (simp add: check_floats_absent)
next
  case False
  with assms have wf: "well_formed j outer names" by simp
  then obtain d where "j = PDict d" by (rule well_formed_dict)
  with wf show ?thesis
    by (simp add: check_floats_well_formed)
qed

lemma check_all_accepted:
  "list_all accepted bs \<Longrightarrow> \<exists>payload'. check_all bs payload = Inr payload'"
proof (induction bs arbitrary: payload)
  case Nil
  then show ?case by simp
next
  case (Cons b bs)
  obtain j outer names msg where b: "b = (j, outer, names, msg)"
    by (cases b) auto
  from Cons.prems have "accepted (j, outer, names, msg)" and rest: "list_all accepted bs"
    by (simp_all add: b)
  then obtain payload' where "check_floats j outer names msg payload = Inr payload'"
    using check_floats_accepted by blast
  with Cons.IH [OF rest, of payload'] show ?case
    by (simp add: b bind_err_simps)
qed







lemma set_filters_sends_once:
  "fst (set_filters p a) = Inr u \<Longrightarrow> \<exists>m. snd (set_filters p a) = send m p"
  by (cases "filters_payload p a") (auto simp add: set_filters_def)



lemma bands_pairs:
  "bands (map (\<lambda>(b, g). PTuple [b, g]) pairs) =
     Inr (map (\<lambda>(b, g). PDict [(''band'', b), (''gain'', g)]) pairs)"
  by (induction pairs) (auto simp add: band_gain_def)

lemma normalize_equalizer_pairs:
  "normalize_equalizer (PList (map (\<lambda>(b, g). PTuple [b, g]) pairs)) =
     Inr (PDict [(''equalizer'',
            PList (map (\<lambda>(b, g). PDict [(''band'', b), (''gain'', g)]) pairs))])"
  by (simp add: normalize_equalizer_def bands_pairs)

lemma normalize_equalizer_dict: "normalize_equalizer (PDict d) = Inr (PDict d)"
  by (simp add: normalize_equalizer_def)

lemma float_bundles_equalizer: "float_bundles (a\<lparr>equalizerjson := j\<rparr>) = float_bundles a"
  by (simp add: float_bundles_def)

lemma float_bundles_rotation:
  "float_bundles (a\<lparr>rotationjson := PFloat x\<rparr>) =
   float_bundles (a\<lparr>rotationjson := PDict [(''rotation'', PDict [(''rotationHz'', PFloat x)])]\<rparr>)"
  by (simp add: float_bundles_def normalize_float_def)

lemma float_bundles_lowPass:
  "float_bundles (a\<lparr>lowPassjson := PFloat x\<rparr>) =
   float_bundles (a\<lparr>lowPassjson := PDict [(''lowPass'', PDict [(''smoothing'', PFloat x)])]\<rparr>)"
  by (simp add: float_bundles_def normalize_float_def)

lemma check_all_none: "check_all (float_bundles no_filters) payload = Inr payload"
  by (simp add: float_bundles_def no_filters_def normalize_float_def check_floats_absent
      bind_err_simps)

lemma set_equalizer_list:
  assumes "map_of d ''equalizer'' = Some (PList xs)"
  shows "set_equalizer p (PDict d) =
     (Inr (), send (dict_update [(''op'', PStr ''filters''),
                                 (''guildId'', PStr (str (guild_id p)))] d) p)"
  using assms
  by (simp add: set_equalizer_def set_filters_def filters_payload_table
      normalize_equalizer_dict float_bundles_equalizer check_all_none check_equalizer_def
      update_with_def bind_err_simps)

lemma set_equalizer_not_list:
  assumes "equalizerjson a = PDict d" and "map_of d ''equalizer'' = Some v" and "\<not> is_list v"
  shows "set_filters p a = (Inl (PyException ''Deformed equalizerjson''), p)"
  using assms
  by (simp add: set_filters_def filters_payload_table normalize_equalizer_dict
      check_equalizer_def bind_err_simps)

lemma set_rotation_float:
  "set_rotation p (PFloat x) =
     (Inr (), send [(''op'', PStr ''filters''), (''guildId'', PStr (str (guild_id p))),
                    (''rotation'', PDict [(''rotationHz'', PFloat x)])] p)"
  by (simp add: set_rotation_def set_filters_def filters_payload_def no_filters_def
      normalize_equalizer_def normalize_float_def check_equalizer_def check_floats_def
      not_float_def update_with_def bind_err_simps)

lemma set_lowPass_float:
  "set_lowPass p (PFloat x) =
     (Inr (), send [(''op'', PStr ''filters''), (''guildId'', PStr (str (guild_id p))),
                    (''lowPass'', PDict [(''smoothing'', PFloat x)])] p)"
  by (simp add: set_lowPass_def set_filters_def filters_payload_def no_filters_def
      normalize_equalizer_def normalize_float_def check_equalizer_def check_floats_def
      not_float_def update_with_def bind_err_simps)


lemma fresh_guild: "str (guild_id (init 7 42 1 [] [])) = ''1''"
  by (simp add: init_def str_def digits.simps)

lemma fresh_send:
  "send m (init 7 42 1 [] []) = (init 7 42 1 [] [])\<lparr>node_sent := [m]\<rparr>"
  by (simp add: send_def init_def)




text \<open>
  C5 (as amended). Of a supplied equalizer bundle \<open>set_filters\<close> tests only that the value
  under \<open>equalizer\<close> is a list: a value of another type raises
  \<open>Deformed equalizerjson\<close>, and every list is merged and sent as it is, the empty list
  and a list with an element that has no \<open>gain\<close> included. In the shorthand form a pair
  that is too short raises the \<open>IndexError\<close> of the normalization.
\<close>

theorem equalizer_only_list_checked:
  "(\<forall>d v. equalizerjson a = PDict d \<and> map_of d ''equalizer'' = Some v \<and> \<not> is_list v \<longrightarrow>
       set_filters p a = (Inl (PyException ''Deformed equalizerjson''), p))
   \<and> (\<forall>d xs. map_of d ''equalizer'' = Some (PList xs) \<longrightarrow>
         set_equalizer p (PDict d) =
           (Inr (), send (dict_update [(''op'', PStr ''filters''),
                                       (''guildId'', PStr (str (guild_id p)))] d) p))
   \<and> set_equalizer p (PList []) =
       (Inr (), send [(''op'', PStr ''filters''), (''guildId'', PStr (str (guild_id p))),
                      (''equalizer'', PList [])] p)
   \<and> set_equalizer p (PDict [(''equalizer'', PList [PDict [(''band'', PInt 0)]])]) =
       (Inr (), send [(''op'', PStr ''filters''), (''guildId'', PStr (str (guild_id p))),
                      (''equalizer'', PList [PDict [(''band'', PInt 0)]])] p)
   \<and> set_equalizer p (PList [PTuple [PInt 0]]) = (Inl IndexError, p)"
proof (intro conjI allI impI)
  fix d v
  assume "equalizerjson a = PDict d \<and> map_of d ''equalizer'' = Some v \<and> \<not> is_list v"
  then show "set_filters p a = (Inl (PyException ''Deformed equalizerjson''), p)"
    using set_equalizer_not_list by blast
next
  fix d xs
  assume "map_of d ''equalizer'' = Some (PList xs)"
  then show "set_equalizer p (PDict d) =
           (Inr (), send (dict_update [(''op'', PStr ''filters''),
                                       (''guildId'', PStr (str (guild_id p)))] d) p)"
    by (rule set_equalizer_list)
next
  have "set_equalizer p (PList []) = set_equalizer p (PDict [(''equalizer'', PList [])])"
    by (simp add: set_equalizer_def set_filters_def filters_payload_table
        normalize_equalizer_def float_bundles_equalizer)
  then show "set_equalizer p (PList []) =
       (Inr (), send [(''op'', PStr ''filters''), (''guildId'', PStr (str (guild_id p))),
                      (''equalizer'', PList [])] p)"
    by (simp add: set_equalizer_list)
next
  show "set_equalizer p (PDict [(''equalizer'', PList [PDict [(''band'', PInt 0)]])]) =
       (Inr (), send [(''op'', PStr ''filters''), (''guildId'', PStr (str (guild_id p))),
                      (''equalizer'', PList [PDict [(''band'', PInt 0)]])] p)"
    by (simp add: set_equalizer_list)
next
  show "set_equalizer p (PList [PTuple [PInt 0]]) = (Inl IndexError, p)"
    by (simp add: set_equalizer_def set_filters_def filters_payload_table
        normalize_equalizer_def band_gain_def bind_err_simps)
qed

text \<open>
  An equalizer whose value is the integer 3 is refused; a list of one band goes to the
  node.
\<close>

theorem equalizer_only_list_checked_witness:
  "equalizerjson (no_filters\<lparr>equalizerjson := PDict [(''equalizer'', PInt 3)]\<rparr>) =
      PDict [(''equalizer'', PInt 3)]
   \<and> map_of [(''equalizer'', PInt 3)] ''equalizer'' = Some (PInt 3) \<and> \<not> is_list (PInt 3)
   \<and> set_filters (init 7 42 1 [] [])
        (no_filters\<lparr>equalizerjson := PDict [(''equalizer'', PInt 3)]\<rparr>) =
       (Inl (PyException ''Deformed equalizerjson''), init 7 42 1 [] [])
   \<and> map_of [(''equalizer'', PList [PDict [(''band'', PInt 0), (''gain'', PFloat (1 / 10))]])]
        ''equalizer'' = Some (PList [PDict [(''band'', PInt 0), (''gain'', PFloat (1 / 10))]])
   \<and> set_equalizer (init 7 42 1 [] [])
        (PDict [(''equalizer'', PList [PDict [(''band'', PInt 0), (''gain'', PFloat (1 / 10))]])]) =
       (Inr (), (init 7 42 1 [] [])\<lparr>node_sent :=
          [[(''op'', PStr ''filters''), (''guildId'', PStr ''1''),
            (''equalizer'', PList [PDict [(''band'', PInt 0), (''gain'', PFloat (1 / 10))]])]]\<rparr>)"
proof -
  let ?p = "init 7 42 1 [] []"
  let ?a = "no_filters\<lparr>equalizerjson := PDict [(''equalizer'', PInt 3)]\<rparr>"
  let ?d = "[(''equalizer'', PList [PDict [(''band'', PInt 0), (''gain'', PFloat (1 / 10))]])]"
  have a: "equalizerjson ?a = PDict [(''equalizer'', PInt 3)]"
    by simp
  have m: "map_of [(''equalizer'', PInt 3)] ''equalizer'' = Some (PInt 3)" "\<not> is_list (PInt 3)"
    by simp_all
  have d: "map_of ?d ''equalizer'' =
      Some (PList [PDict [(''band'', PInt 0), (''gain'', PFloat (1 / 10))]])"
    by simp
  have "set_filters ?p ?a = (Inl (PyException ''Deformed equalizerjson''), ?p)"
    using equalizer_only_list_checked [of ?a ?p] a m by blast
  moreover have "set_equalizer ?p (PDict ?d) =
      (Inr (), send (dict_update [(''op'', PStr ''filters''),
                                  (''guildId'', PStr (str (guild_id ?p)))] ?d) ?p)"
    using equalizer_only_list_checked [of ?a ?p] d by blast
  ultimately show ?thesis
    using a m d by (simp add: fresh_guild fresh_send)
qed

text \<open>
  The claim as stated fails: the empty list and a list whose element lacks \<open>gain\<close> are
  sent, not refused.
\<close>

theorem equalizer_unchecked_counterexample:
  "set_equalizer (init 7 42 1 [] []) (PList []) =
     (Inr (), (init 7 42 1 [] [])\<lparr>node_sent :=
        [[(''op'', PStr ''filters''), (''guildId'', PStr ''1''), (''equalizer'', PList [])]]\<rparr>)
   \<and> set_equalizer (init 7 42 1 [] []) (PDict [(''equalizer'', PList [PDict [(''band'', PInt 0)]])]) =
     (Inr (), (init 7 42 1 [] [])\<lparr>node_sent :=
        [[(''op'', PStr ''filters''), (''guildId'', PStr ''1''),
          (''equalizer'', PList [PDict [(''band'', PInt 0)]])]]\<rparr>)"
proof -
  have "set_equalizer (init 7 42 1 [] []) (PList []) =
      set_equalizer (init 7 42 1 [] []) (PDict [(''equalizer'', PList [])])"
    by (simp add: set_equalizer_def set_filters_def filters_payload_table
        normalize_equalizer_def float_bundles_equalizer)
  then show ?thesis
    by (simp add: set_equalizer_list fresh_guild fresh_send)
qed

text \<open>
  C6 (as amended). An equalizer given as a list of (band, gain) pairs is treated as the
  dictionary \<open>{equalizer: [{band, gain}, ...]}\<close> with the pairs in order; a rotation given
  as a float as \<open>{rotation: {rotationHz: value}}\<close>; a lowPass given as a float as
  \<open>{lowPass: {smoothing: value}}\<close>: \<open>set_filters\<close> gives the same result for the shorthand
  and for the canonical form, whatever the other bundles are, and alone each of them is
  sent in the canonical form. Only a float is normalized: the type test is
  \<open>type(x) is float\<close>.
\<close>

theorem shorthand_normalization:
  "set_filters p (a\<lparr>equalizerjson := PList (map (\<lambda>(b, g). PTuple [b, g]) pairs)\<rparr>) =
     set_filters p (a\<lparr>equalizerjson := PDict [(''equalizer'',
        PList (map (\<lambda>(b, g). PDict [(''band'', b), (''gain'', g)]) pairs))]\<rparr>)
   \<and> set_filters p (a\<lparr>rotationjson := PFloat x\<rparr>) =
       set_filters p (a\<lparr>rotationjson :=
         PDict [(''rotation'', PDict [(''rotationHz'', PFloat x)])]\<rparr>)
   \<and> set_filters p (a\<lparr>lowPassjson := PFloat y\<rparr>) =
       set_filters p (a\<lparr>lowPassjson :=
         PDict [(''lowPass'', PDict [(''smoothing'', PFloat y)])]\<rparr>)
   \<and> set_equalizer p (PList (map (\<lambda>(b, g). PTuple [b, g]) pairs)) =
       (Inr (), send [(''op'', PStr ''filters''), (''guildId'', PStr (str (guild_id p))),
                      (''equalizer'',
                       PList (map (\<lambda>(b, g). PDict [(''band'', b), (''gain'', g)]) pairs))] p)
   \<and> set_rotation p (PFloat x) =
       (Inr (), send [(''op'', PStr ''filters''), (''guildId'', PStr (str (guild_id p))),
                      (''rotation'', PDict [(''rotationHz'', PFloat x)])] p)
   \<and> set_lowPass p (PFloat y) =
       (Inr (), send [(''op'', PStr ''filters''), (''guildId'', PStr (str (guild_id p))),
                      (''lowPass'', PDict [(''smoothing'', PFloat y)])] p)"
proof -
  have eq: "set_filters p (a\<lparr>equalizerjson := PList (map (\<lambda>(b, g). PTuple [b, g]) pairs)\<rparr>) =
     set_filters p (a\<lparr>equalizerjson := PDict [(''equalizer'',
        PList (map (\<lambda>(b, g). PDict [(''band'', b), (''gain'', g)]) pairs))]\<rparr>)" for a
    by (simp add: set_filters_def filters_payload_table normalize_equalizer_pairs
        normalize_equalizer_dict float_bundles_equalizer)
  have rot: "set_filters p (a\<lparr>rotationjson := PFloat x\<rparr>) =
       set_filters p (a\<lparr>rotationjson :=
         PDict [(''rotation'', PDict [(''rotationHz'', PFloat x)])]\<rparr>)"
    by (simp add: set_filters_def filters_payload_table float_bundles_rotation)
  have low: "set_filters p (a\<lparr>lowPassjson := PFloat y\<rparr>) =
       set_filters p (a\<lparr>lowPassjson :=
         PDict [(''lowPass'', PDict [(''smoothing'', PFloat y)])]\<rparr>)"
    by (simp add: set_filters_def filters_payload_table float_bundles_lowPass)
  have "set_equalizer p (PList (map (\<lambda>(b, g). PTuple [b, g]) pairs)) =
      set_equalizer p (PDict [(''equalizer'',
        PList (map (\<lambda>(b, g). PDict [(''band'', b), (''gain'', g)]) pairs))])"
    unfolding set_equalizer_def by (rule eq)
  then have one: "set_equalizer p (PList (map (\<lambda>(b, g). PTuple [b, g]) pairs)) =
       (Inr (), send [(''op'', PStr ''filters''), (''guildId'', PStr (str (guild_id p))),
                      (''equalizer'',
                       PList (map (\<lambda>(b, g). PDict [(''band'', b), (''gain'', g)]) pairs))] p)"
    by (simp add: set_equalizer_list)
  show ?thesis
    using eq [of a] rot low one set_rotation_float [of p x] set_lowPass_float [of p y]
    by (intro conjI)
qed

text \<open>
  The equalizer \<open>[(0, -0.25), (1, 0.1)]\<close>, the rotation \<open>0.2\<close> and the lowPass \<open>20.0\<close>
  are sent in canonical form.
\<close>

theorem shorthand_normalization_witness:
  "set_equalizer (init 7 42 1 [] [])
     (PList [PTuple [PInt 0, PFloat (- 1 / 4)], PTuple [PInt 1, PFloat (1 / 10)]]) =
     (Inr (), (init 7 42 1 [] [])\<lparr>node_sent :=
        [[(''op'', PStr ''filters''), (''guildId'', PStr ''1''),
          (''equalizer'', PList [PDict [(''band'', PInt 0), (''gain'', PFloat (- 1 / 4))],
                                 PDict [(''band'', PInt 1), (''gain'', PFloat (1 / 10))]])]]\<rparr>)
   \<and> set_rotation (init 7 42 1 [] []) (PFloat (1 / 5)) =
     (Inr (), (init 7 42 1 [] [])\<lparr>node_sent :=
        [[(''op'', PStr ''filters''), (''guildId'', PStr ''1''),
          (''rotation'', PDict [(''rotationHz'', PFloat (1 / 5))])]]\<rparr>)
   \<and> set_lowPass (init 7 42 1 [] []) (PFloat 20) =
     (Inr (), (init 7 42 1 [] [])\<lparr>node_sent :=
        [[(''op'', PStr ''filters''), (''guildId'', PStr ''1''),
          (''lowPass'', PDict [(''smoothing'', PFloat 20)])]]\<rparr>)"
  using shorthand_normalization [where p = "init 7 42 1 [] []" and a = no_filters
      and pairs = "[(PInt 0, PFloat (- 1 / 4)), (PInt 1, PFloat (1 / 10))]"
      and x = "1 / 5" and y = 20]
  by (simp add: fresh_guild fresh_send)

text \<open>
  The claim as stated, any single numeric value, fails for an integer: the rotation
  \<open>2\<close> and the lowPass \<open>20\<close> are not normalized and raise \<open>TypeError\<close> when they are
  subscripted, while their canonical forms raise the exception of the type test.
\<close>

theorem shorthand_normalization_counterexample:
  "set_rotation (init 7 42 1 [] []) (PInt 2) = (Inl TypeError, init 7 42 1 [] [])
   \<and> set_rotation (init 7 42 1 [] []) (PDict [(''rotation'', PDict [(''rotationHz'', PInt 2)])]) =
       (Inl (PyException ''Deformed rotationjson''), init 7 42 1 [] [])
   \<and> set_lowPass (init 7 42 1 [] []) (PInt 20) = (Inl TypeError, init 7 42 1 [] [])
   \<and> set_lowPass (init 7 42 1 [] []) (PDict [(''lowPass'', PDict [(''smoothing'', PInt 20)])]) =
       (Inl (PyException ''Deformed lowPassjson''), init 7 42 1 [] [])"
  by (simp add: set_rotation_def set_lowPass_def set_filters_def filters_payload_def
      no_filters_def normalize_equalizer_def normalize_float_def check_equalizer_def
      check_floats_def not_float_def bind_err_simps)

end
